theory Spec2Isabelle
  imports Complex_Main "HOL-Library.Product_Lexorder" "HOL-Library.List_Lexorder"
    "HOL-Library.Multiset" "HOL-Library.AList" "HOL-Library.Monad_Syntax"
begin

section \<open>Dates, times and durations\<close>

text \<open>
  Python's \<open>date\<close> and \<open>datetime\<close> objects are tuples of fields compared
  lexicographically: \<open>(year, month, day)\<close> and
  \<open>(hour, minute, second, microsecond)\<close>. The order on the tuples below is the
  lexicographic one, so \<open>a < b\<close> is Python's comparison of two naive datetimes.
\<close>

type_synonym date = "nat \<times> nat \<times> nat"
type_synonym time = "nat \<times> nat \<times> nat \<times> nat"
type_synonym datetime = "date \<times> time"
type_synonym period = "datetime \<times> datetime"

definition is_leap :: "nat \<Rightarrow> bool" where
  "is_leap year \<longleftrightarrow> year mod 4 = 0 \<and> (year mod 100 \<noteq> 0 \<or> year mod 400 = 0)"

definition DAYS_IN_MONTH :: "nat list" where
  "DAYS_IN_MONTH = [31, 28, 31, 30, 31, 30, 31, 31, 30, 31, 30, 31]"

definition DAYS_BEFORE_MONTH :: "int list" where
  "DAYS_BEFORE_MONTH = [0, 31, 59, 90, 120, 151, 181, 212, 243, 273, 304, 334]"

definition days_in_month :: "nat \<Rightarrow> nat \<Rightarrow> nat" where
  "days_in_month year month =
     (if month = 2 \<and> is_leap year then 29 else DAYS_IN_MONTH ! (month - 1))"

definition days_before_year :: "nat \<Rightarrow> int" where
  "days_before_year year =
     (let y = int year - 1 in y * 365 + y div 4 - y div 100 + y div 400)"

definition days_before_month :: "nat \<Rightarrow> nat \<Rightarrow> int" where
  "days_before_month year month =
     DAYS_BEFORE_MONTH ! (month - 1) + (if month > 2 \<and> is_leap year then 1 else 0)"

definition valid_date :: "date \<Rightarrow> bool" where
  "valid_date d = (case d of (year, month, day) \<Rightarrow>
     1 \<le> year \<and> year \<le> 9999 \<and> 1 \<le> month \<and> month \<le> 12 \<and>
     1 \<le> day \<and> day \<le> days_in_month year month)"

definition valid_time :: "time \<Rightarrow> bool" where
  "valid_time t = (case t of (hour, minute, second, microsecond) \<Rightarrow>
     hour < 24 \<and> minute < 60 \<and> second < 60 \<and> microsecond < 1000000)"

definition valid_datetime :: "datetime \<Rightarrow> bool" where
  "valid_datetime dt \<longleftrightarrow> valid_date (fst dt) \<and> valid_time (snd dt)"

definition toordinal :: "date \<Rightarrow> int" where
  "toordinal d = (case d of (year, month, day) \<Rightarrow>
     days_before_year year + days_before_month year month + int day)"

definition weekday :: "date \<Rightarrow> int" where
  "weekday d = (toordinal d + 6) mod 7"

definition time_us :: "time \<Rightarrow> int" where
  "time_us t = (case t of (hour, minute, second, microsecond) \<Rightarrow>
     ((int hour * 60 + int minute) * 60 + int second) * 1000000 + int microsecond)"

text \<open>\<open>end - start\<close>: the timedelta, in microseconds.\<close>

definition timedelta :: "datetime \<Rightarrow> datetime \<Rightarrow> int" where
  "timedelta e s =
     (toordinal (fst e) - toordinal (fst s)) * 86400000000 + (time_us (snd e) - time_us (snd s))"

text \<open>
  Python floats are idealised as rationals throughout: \<open>total_seconds\<close>, the
  divisions by 60 and 3600 and the comparisons of hours are exact here.
\<close>

definition total_seconds :: "int \<Rightarrow> rat" where
  "total_seconds delta = of_int delta / 1000000"

text \<open>\<open>int(x)\<close> on a float truncates toward zero.\<close>

definition py_int :: "rat \<Rightarrow> int" where
  "py_int q = (if 0 \<le> q then \<lfloor>q\<rfloor> else \<lceil>q\<rceil>)"

text \<open>\<open>round(x)\<close> rounds to the nearest integer, ties to the even one.\<close>

definition py_round :: "rat \<Rightarrow> int" where
  "py_round q =
     (let f = \<lfloor>q\<rfloor>; r = q - of_int f
      in if r < 1 / 2 then f else if 1 / 2 < r then f + 1 else if even f then f else f + 1)"

text \<open>\<open>dt.replace(hour=h, minute=m)\<close> and \<open>datetime.combine(d, t)\<close>.\<close>

definition replace_hour_minute :: "datetime \<Rightarrow> nat \<Rightarrow> nat \<Rightarrow> datetime" where
  "replace_hour_minute dt h m =
     (case dt of (d, (hour, minute, second, microsecond)) \<Rightarrow> (d, (h, m, second, microsecond)))"

definition combine :: "date \<Rightarrow> time \<Rightarrow> datetime" where
  "combine d t = (d, t)"

section \<open>Merging periods\<close>

text \<open>
  \<open>merge_two_datetime_periods\<close>, lines 225-243. The functions of this section only
  compare their arguments, so they are stated for any linear order; the program uses
  them at \<open>datetime\<close>.
\<close>

definition merge_two_datetime_periods ::
  "('a::linorder \<times> 'a) \<Rightarrow> ('a \<times> 'a) \<Rightarrow> ('a \<times> 'a) option" where
  "merge_two_datetime_periods period1 period2 =
     (case period1 of (start1, end1) \<Rightarrow> case period2 of (start2, end2) \<Rightarrow>
        if end1 < start2 \<or> end2 < start1 then None
        else Some (min start1 start2, max end1 end2))"

text \<open>\<open>xs.pop(i)\<close> for an index in range.\<close>

definition pop :: "'a list \<Rightarrow> nat \<Rightarrow> 'a list" where
  "pop xs i = take i xs @ drop (Suc i) xs"

text \<open>
  The \<open>while i < len(sorted_periods) - 1\<close> loop of \<open>merge_datetime_periods\<close>
  (lines 260-267), on the index and the list it mutates. The merged tuple is never
  falsy, so \<open>if result\<close> is the test for \<open>Some\<close>.
\<close>

function merge_loop :: "nat \<Rightarrow> ('a::linorder \<times> 'a) list \<Rightarrow> ('a \<times> 'a) list" where
  "merge_loop i sorted_periods =
     (if i + 1 < length sorted_periods then
        (case merge_two_datetime_periods (sorted_periods ! i) (sorted_periods ! (i + 1)) of
           Some result \<Rightarrow> merge_loop i (pop (sorted_periods[i := result]) (i + 1))
         | None \<Rightarrow> merge_loop (i + 1) sorted_periods)
      else sorted_periods)"
  by pat_completeness auto
termination
  by (relation "measure (\<lambda>(i, sp). 2 * length sp - i)") (auto simp: pop_def)

declare merge_loop.simps [simp del]

text \<open>\<open>sorted(periods, key=lambda x: x[0])\<close> is a stable sort on the start.\<close>

definition merge_datetime_periods :: "('a::linorder \<times> 'a) list \<Rightarrow> ('a \<times> 'a) list" where
  "merge_datetime_periods periods =
     (if periods = [] then [] else merge_loop 0 (sort_key fst periods))"




text \<open>\<open>calculate_datetime_minutes\<close>, lines 271-284.\<close>

definition period_minutes :: "period \<Rightarrow> int" where
  "period_minutes p = (case p of (start, end) \<Rightarrow>
     py_int (total_seconds (timedelta end start) / 60))"

definition calculate_datetime_minutes :: "period list \<Rightarrow> int" where
  "calculate_datetime_minutes periods =
     foldl (\<lambda>total_minutes p. total_minutes + period_minutes p) 0 periods"

section \<open>Strings and \<open>strptime\<close>\<close>

text \<open>
  A Python \<open>str\<close> is a sequence of Unicode code points, so a string is a list of
  code-point numbers here: the source tests for the markers U+4E0A U+5348 (morning) and
  U+4E0B U+5348 (afternoon) and splits on Unicode whitespace. \<open>ustr\<close> turns an ASCII
  literal into such a string.
\<close>

type_synonym pystr = "nat list"

definition ord :: "char \<Rightarrow> nat" where
  "ord c = of_char c"

definition ustr :: "string \<Rightarrow> pystr" where
  "ustr s = map ord s"

definition MORNING :: pystr where
  "MORNING = [19978, 21320]"

definition AFTERNOON :: pystr where
  "AFTERNOON = [19979, 21320]"

text \<open>The code points for which \<open>str.isspace\<close> holds (and that \<open>\s\<close> matches).\<close>

definition isspace :: "nat \<Rightarrow> bool" where
  "isspace c \<longleftrightarrow>
     (9 \<le> c \<and> c \<le> 13) \<or> (28 \<le> c \<and> c \<le> 32) \<or> c = 133 \<or> c = 160 \<or> c = 5760 \<or>
     (8192 \<le> c \<and> c \<le> 8202) \<or> c = 8232 \<or> c = 8233 \<or> c = 8239 \<or> c = 8287 \<or> c = 12288"

definition strip :: "pystr \<Rightarrow> pystr" where
  "strip s = rev (dropWhile isspace (rev (dropWhile isspace s)))"

text \<open>
  \<open>s.split()\<close>: the maximal runs of non-whitespace, in order. \<open>cur\<close> is the current
  run, reversed.
\<close>

fun split_acc :: "pystr \<Rightarrow> pystr \<Rightarrow> pystr list" where
  "split_acc cur [] = (if cur = [] then [] else [rev cur])"
| "split_acc cur (c # cs) =
     (if isspace c then (if cur = [] then split_acc [] cs else rev cur # split_acc [] cs)
      else split_acc (c # cur) cs)"

definition split :: "pystr \<Rightarrow> pystr list" where
  "split s = split_acc [] s"

fun startswith :: "pystr \<Rightarrow> pystr \<Rightarrow> bool" where
  "startswith s [] = True"
| "startswith [] (p # ps) = False"
| "startswith (c # cs) (p # ps) = (c = p \<and> startswith cs ps)"

text \<open>\<open>sub in s\<close>.\<close>

fun contains :: "pystr \<Rightarrow> pystr \<Rightarrow> bool" where
  "contains sub [] = (sub = [])"
| "contains sub (c # cs) = (startswith (c # cs) sub \<or> contains sub cs)"

text \<open>
  \<open>datetime.strptime\<close> compiles its format to a regular expression, matches it at
  the start of the string and fails unless the match reaches the end. The directives
  of the two formats the program uses are (CPython, \<open>_strptime.TimeRE\<close>):
  \<^verbatim>\<open>%Y  \d\d\d\d\<close>,
  \<^verbatim>\<open>%m  1[0-2]|0[1-9]|[1-9]\<close>,
  \<^verbatim>\<open>%d  3[0-1]|[1-2]\d|0[1-9]|[1-9]| [1-9]\<close>,
  \<^verbatim>\<open>%H  2[0-3]|[0-1]\d|\d\<close>,
  \<^verbatim>\<open>%M  [0-5]\d|\d\<close>,
  and a blank in the format is \<^verbatim>\<open>\s+\<close>. Each group is followed by a character
  that is not a digit (or by the end), so the leftmost alternative that matches is the only
  one that can lead to a match, and \<open>first_of\<close> needs no backtracking. Digits are the
  ASCII digits.
\<close>

definition isdigit :: "nat \<Rightarrow> bool" where
  "isdigit c \<longleftrightarrow> 48 \<le> c \<and> c \<le> 57"

definition digit :: "nat \<Rightarrow> nat" where
  "digit c = c - 48"

definition between :: "char \<Rightarrow> char \<Rightarrow> nat \<Rightarrow> bool" where
  "between lo hi c \<longleftrightarrow> ord lo \<le> c \<and> c \<le> ord hi"

definition two_digits :: "(nat \<Rightarrow> bool) \<Rightarrow> (nat \<Rightarrow> bool) \<Rightarrow> pystr \<Rightarrow> (nat \<times> pystr) option" where
  "two_digits p q s =
     (case s of
        a # b # rest \<Rightarrow> if p a \<and> q b then Some (10 * digit a + digit b, rest) else None
      | _ \<Rightarrow> None)"

definition one_digit :: "(nat \<Rightarrow> bool) \<Rightarrow> pystr \<Rightarrow> (nat \<times> pystr) option" where
  "one_digit p s =
     (case s of a # rest \<Rightarrow> if p a then Some (digit a, rest) else None | [] \<Rightarrow> None)"

definition space_digit :: "(nat \<Rightarrow> bool) \<Rightarrow> pystr \<Rightarrow> (nat \<times> pystr) option" where
  "space_digit p s =
     (case s of
        a # b # rest \<Rightarrow> if a = 32 \<and> p b then Some (digit b, rest) else None
      | _ \<Rightarrow> None)"

fun first_of :: "(pystr \<Rightarrow> (nat \<times> pystr) option) list \<Rightarrow> pystr \<Rightarrow> (nat \<times> pystr) option" where
  "first_of [] s = None"
| "first_of (f # fs) s = (case f s of Some r \<Rightarrow> Some r | None \<Rightarrow> first_of fs s)"

definition re_Y :: "pystr \<Rightarrow> (nat \<times> pystr) option" where
  "re_Y s =
     (case s of
        a # b # c # d # rest \<Rightarrow>
          if isdigit a \<and> isdigit b \<and> isdigit c \<and> isdigit d
          then Some (1000 * digit a + 100 * digit b + 10 * digit c + digit d, rest)
          else None
      | _ \<Rightarrow> None)"

definition re_m :: "pystr \<Rightarrow> (nat \<times> pystr) option" where
  "re_m = first_of
     [two_digits (between CHR ''1'' CHR ''1'') (between CHR ''0'' CHR ''2''),
      two_digits (between CHR ''0'' CHR ''0'') (between CHR ''1'' CHR ''9''),
      one_digit (between CHR ''1'' CHR ''9'')]"

definition re_d :: "pystr \<Rightarrow> (nat \<times> pystr) option" where
  "re_d = first_of
     [two_digits (between CHR ''3'' CHR ''3'') (between CHR ''0'' CHR ''1''),
      two_digits (between CHR ''1'' CHR ''2'') isdigit,
      two_digits (between CHR ''0'' CHR ''0'') (between CHR ''1'' CHR ''9''),
      one_digit (between CHR ''1'' CHR ''9''),
      space_digit (between CHR ''1'' CHR ''9'')]"

definition re_H :: "pystr \<Rightarrow> (nat \<times> pystr) option" where
  "re_H = first_of
     [two_digits (between CHR ''2'' CHR ''2'') (between CHR ''0'' CHR ''3''),
      two_digits (between CHR ''0'' CHR ''1'') isdigit,
      one_digit isdigit]"

definition re_M :: "pystr \<Rightarrow> (nat \<times> pystr) option" where
  "re_M = first_of [two_digits (between CHR ''0'' CHR ''5'') isdigit, one_digit isdigit]"

definition lit :: "char \<Rightarrow> pystr \<Rightarrow> pystr option" where
  "lit c s = (case s of a # rest \<Rightarrow> if a = ord c then Some rest else None | [] \<Rightarrow> None)"

definition re_spaces :: "pystr \<Rightarrow> pystr option" where
  "re_spaces s =
     (case s of a # rest \<Rightarrow> if isspace a then Some (dropWhile isspace rest) else None
      | [] \<Rightarrow> None)"

text \<open>The common prefix \<^verbatim>\<open>%Y-%m-%d\<close> of both formats.\<close>

definition match_Ymd :: "pystr \<Rightarrow> (date \<times> pystr) option" where
  "match_Ymd s = do {
     (year, s1) \<leftarrow> re_Y s;
     s2 \<leftarrow> lit CHR ''-'' s1;
     (month, s3) \<leftarrow> re_m s2;
     s4 \<leftarrow> lit CHR ''-'' s3;
     (day, s5) \<leftarrow> re_d s4;
     Some ((year, month, day), s5)
   }"

definition match_HM :: "pystr \<Rightarrow> (time \<times> pystr) option" where
  "match_HM s = do {
     (hour, s1) \<leftarrow> re_H s;
     s2 \<leftarrow> lit CHR '':'' s1;
     (minute, s3) \<leftarrow> re_M s2;
     Some ((hour, minute, 0, 0), s3)
   }"

text \<open>
  \<open>datetime.strptime(s, '%Y-%m-%d')\<close> and \<open>datetime.strptime(s, '%Y-%m-%d %H:%M')\<close>;
  \<open>None\<close> is the \<open>ValueError\<close> (no match, unconverted data, or a day the month does
  not have).
\<close>

definition strptime_Ymd :: "pystr \<Rightarrow> datetime option" where
  "strptime_Ymd s = do {
     (d, rest) \<leftarrow> match_Ymd s;
     if rest = [] \<and> valid_date d then Some (d, (0, 0, 0, 0)) else None
   }"

definition strptime_Ymd_HM :: "pystr \<Rightarrow> datetime option" where
  "strptime_Ymd_HM s = do {
     (d, s1) \<leftarrow> match_Ymd s;
     s2 \<leftarrow> re_spaces s1;
     (t, rest) \<leftarrow> match_HM s2;
     if rest = [] \<and> valid_date d then Some (d, t) else None
   }"

text \<open>
  \<open>str(day)\<close> of a date is \<^verbatim>\<open>%04d-%02d-%02d\<close>; \<open>strftime('%Y-%m-%d')\<close> and
  \<open>strftime('%H:%M')\<close> print the same digits (years of four digits, as every pandas
  timestamp has).
\<close>

definition pad2 :: "nat \<Rightarrow> pystr" where
  "pad2 n = [48 + n div 10, 48 + n mod 10]"

definition pad4 :: "nat \<Rightarrow> pystr" where
  "pad4 n = [48 + n div 1000, 48 + n div 100 mod 10, 48 + n div 10 mod 10, 48 + n mod 10]"

definition isoformat :: "date \<Rightarrow> pystr" where
  "isoformat d = (case d of (year, month, day) \<Rightarrow>
     pad4 year @ ustr ''-'' @ pad2 month @ ustr ''-'' @ pad2 day)"

definition strftime_Ymd :: "date \<Rightarrow> pystr" where
  "strftime_Ymd d = isoformat d"

definition strftime_HM :: "datetime \<Rightarrow> pystr" where
  "strftime_HM dt = (case snd dt of (hour, minute, second, microsecond) \<Rightarrow>
     pad2 hour @ ustr '':'' @ pad2 minute)"

section \<open>Time expressions\<close>

datatype error = ValueError

text \<open>
  \<open>parse_datetime_str\<close>, lines 65-131. Every exception inside the outer \<open>try\<close>
  (the \<open>IndexError\<close> of \<open>parts[0]\<close> on a blank string too) is raised again as
  \<open>ValueError\<close>.
\<close>

definition raise_or :: "datetime option \<Rightarrow> error + datetime" where
  "raise_or r = (case r of None \<Rightarrow> Inl ValueError | Some dt \<Rightarrow> Inr dt)"

definition parse_datetime_str :: "pystr \<Rightarrow> bool \<Rightarrow> error + datetime" where
  "parse_datetime_str date_time_str0 is_end_time =
     (let date_time_str = strip date_time_str0 in
      case strptime_Ymd_HM date_time_str of
        Some dt \<Rightarrow> Inr dt
      | None \<Rightarrow>
         (case split date_time_str of
            [] \<Rightarrow> Inl ValueError
          | date_str # more \<Rightarrow>
             (let time_str = (case more of [] \<Rightarrow> None | t # _ \<Rightarrow> Some t) in
              case strptime_Ymd date_str of
                None \<Rightarrow> Inl ValueError
              | Some base_date \<Rightarrow>
                 (case time_str of
                    None \<Rightarrow>
                      raise_or (strptime_Ymd_HM
                        (date_str @ ustr '' '' @ (if is_end_time then ustr ''18:00'' else ustr ''09:00'')))
                  | Some time_str \<Rightarrow>
                      if contains MORNING time_str then
                        (if is_end_time
                         then raise_or (strptime_Ymd_HM (date_str @ ustr '' 12:00''))
                         else raise_or (strptime_Ymd_HM (date_str @ ustr '' 09:00'')))
                      else if contains AFTERNOON time_str then
                        (if is_end_time
                         then raise_or (strptime_Ymd_HM (date_str @ ustr '' 18:00''))
                         else raise_or (strptime_Ymd_HM (date_str @ ustr '' 13:00'')))
                      else raise_or (strptime_Ymd_HM (date_str @ ustr '' '' @ time_str))))))"

section \<open>Absence records\<close>

text \<open>
  A row of one of the three absence tables (leave, out-of-office, business travel), with
  the cells the program reads, each already passed through \<open>str\<close>: the name, the
  status, the category (\<open>None\<close> when the cell is missing or NaN), and the start and
  end expressions. A table is the list of its rows.
\<close>

record absence_row =
  a_name :: pystr
  a_status :: pystr
  a_type :: "pystr option"
  a_start :: pystr
  a_end :: pystr

text \<open>The two status labels that count: effective and pending-effective.\<close>

definition EFFECTIVE :: pystr where
  "EFFECTIVE = [24050, 29983, 25928]"

definition PENDING :: pystr where
  "PENDING = [26410, 29983, 25928]"

text \<open>
  \<open>process_absence_record\<close>, lines 286-328. \<open>target_date\<close> is the datetime at
  midnight of the day; \<open>fst\<close> of a datetime is its \<open>.date()\<close>.
\<close>

definition process_absence_record ::
  "absence_row \<Rightarrow> datetime \<Rightarrow> datetime \<Rightarrow> datetime \<Rightarrow> period option" where
  "process_absence_record record target_date workday_start workday_end =
     (case parse_datetime_str (a_start record) False of
        Inl e \<Rightarrow> None
      | Inr start_time \<Rightarrow>
         (case parse_datetime_str (a_end record) True of
            Inl e \<Rightarrow> None
          | Inr end_time \<Rightarrow>
              if fst end_time < fst target_date \<or> fst start_time > fst target_date then None
              else
                (let intersection_start = max start_time workday_start;
                     intersection_end = min end_time workday_end
                 in if intersection_start \<ge> intersection_end then None
                    else Some (intersection_start, intersection_end))))"

text \<open>The rows of a table that belong to the employee and count.\<close>

definition records_of :: "pystr \<Rightarrow> absence_row list \<Rightarrow> absence_row list" where
  "records_of name df =
     filter (\<lambda>r. a_name r = name \<and> (a_status r = EFFECTIVE \<or> a_status r = PENDING)) df"

text \<open>
  The periods \<open>get_raw_absence_hours\<close> collects in \<open>all_time_periods\<close>: table by
  table, row by row.
\<close>

definition collect_periods ::
  "pystr \<Rightarrow> datetime \<Rightarrow> absence_row list list \<Rightarrow> period list" where
  "collect_periods name target_date absence_dfs =
     (let workday_start = replace_hour_minute target_date 9 0;
          workday_end = replace_hour_minute target_date 18 0
      in concat (map (\<lambda>df.
           List.map_filter
             (\<lambda>record. process_absence_record record target_date workday_start workday_end)
             (records_of name df)) absence_dfs))"

text \<open>
  \<open>get_raw_absence_hours\<close>, lines 330-377. \<open>None\<close> is the \<open>ValueError\<close> of
  \<open>strptime(day, '%Y-%m-%d')\<close>, which nothing catches.
\<close>

definition get_raw_absence_hours ::
  "pystr \<Rightarrow> pystr \<Rightarrow> absence_row list list \<Rightarrow> (rat \<times> period list) option" where
  "get_raw_absence_hours name day absence_dfs =
     (case strptime_Ymd day of
        None \<Rightarrow> None
      | Some target_date \<Rightarrow>
         (let all_time_periods = collect_periods name target_date absence_dfs
          in if all_time_periods = [] then Some (0, [])
             else
               (let merged_periods = merge_datetime_periods all_time_periods;
                    total_minutes = calculate_datetime_minutes merged_periods;
                    total_hours = of_int total_minutes / 60
                in Some (min total_hours 9, merged_periods))))"

text \<open>\<open>get_actual_absence_hours\<close>, lines 379-411.\<close>

definition get_actual_absence_hours :: "period list \<Rightarrow> rat" where
  "get_actual_absence_hours merged_periods =
     (case merged_periods of
        [] \<Rightarrow> 0
      | first # _ \<Rightarrow>
         (let reference_date = fst (fst first);
              lunch_break_start = combine reference_date (12, 0, 0, 0);
              lunch_break_end = combine reference_date (13, 0, 0, 0);
              all_periods = merged_periods @ [(lunch_break_start, lunch_break_end)];
              merged_periods' = merge_datetime_periods all_periods;
              merged_periods'' = filter
                (\<lambda>period. \<not> (fst period = lunch_break_start \<and> snd period = lunch_break_end))
                merged_periods';
              total_minutes = calculate_datetime_minutes merged_periods''
          in min (of_int total_minutes / 60) 9))"

text \<open>\<open>get_absence_description\<close>, lines 172-223.\<close>

fun join :: "pystr \<Rightarrow> pystr list \<Rightarrow> pystr" where
  "join sep [] = []"
| "join sep [x] = x"
| "join sep (x # y # r) = x @ sep @ join sep (y # r)"

definition describe :: "absence_row \<Rightarrow> period \<Rightarrow> pystr" where
  "describe record time_period =
     (let type_val = (case a_type record of None \<Rightarrow> [] | Some t \<Rightarrow> t);
          start_time = strftime_HM (fst time_period);
          end_time = strftime_HM (snd time_period)
      in type_val @ ustr ''['' @ start_time @ ustr ''-'' @ end_time @ ustr '']'')"

definition get_absence_description ::
  "pystr \<Rightarrow> pystr \<Rightarrow> absence_row list list \<Rightarrow> pystr option" where
  "get_absence_description name day absence_dfs =
     (case strptime_Ymd day of
        None \<Rightarrow> None
      | Some target_date \<Rightarrow>
         (let workday_start = replace_hour_minute target_date 9 0;
              workday_end = replace_hour_minute target_date 18 0;
              all_descriptions = concat (map (\<lambda>df.
                List.map_filter
                  (\<lambda>record.
                     map_option (describe record)
                       (process_absence_record record target_date workday_start workday_end))
                  (records_of name df)) absence_dfs)
          in Some (join (ustr ''; '') all_descriptions)))"

text \<open>\<open>get_absence_hours\<close>, lines 413-443.\<close>

definition get_absence_hours ::
  "pystr \<Rightarrow> pystr \<Rightarrow> absence_row list \<Rightarrow> absence_row list \<Rightarrow> absence_row list
   \<Rightarrow> (rat \<times> rat \<times> pystr) option" where
  "get_absence_hours name day xiujia_df waichu_df chuchai_df =
     (let absence_dfs = [xiujia_df, waichu_df, chuchai_df] in
      case get_raw_absence_hours name day absence_dfs of
        None \<Rightarrow> None
      | Some (raw_hours, merged_periods) \<Rightarrow>
         (let actual_hours = get_actual_absence_hours merged_periods in
          case get_absence_description name day absence_dfs of
            None \<Rightarrow> None
          | Some description \<Rightarrow> Some (raw_hours, actual_hours, description)))"


section \<open>The calendar\<close>

text \<open>\<open>is_workday_from_calendar\<close>, lines 781-794.\<close>

definition is_workday_from_calendar :: "date \<Rightarrow> pystr set \<Rightarrow> pystr set \<Rightarrow> bool" where
  "is_workday_from_calendar date_obj work_days holiday_days =
     (let date_str = strftime_Ymd date_obj
      in if date_str \<in> holiday_days then False
         else if date_str \<in> work_days then True
         else weekday date_obj < 5)"

section \<open>Classification and the reconciliation run\<close>

text \<open>
  The four status labels the program writes: normal, no-punch, single-punch-missing
  and insufficient-attendance.
\<close>

datatype status = Normal | NoPunch | SinglePunchMissing | Insufficient

text \<open>\<open>required_hours = max(0, 8.75 - actual_absence_hours)\<close>, line 512.\<close>

definition required_hours_of :: "rat \<Rightarrow> rat" where
  "required_hours_of actual_absence_hours = max 0 (35 / 4 - actual_absence_hours)"

text \<open>The \<open>if\<close>/\<open>elif\<close> chain of lines 515-523, in its order.\<close>

definition decide_status :: "nat \<Rightarrow> rat \<Rightarrow> rat \<Rightarrow> status" where
  "decide_status record_count work_hours required_hours =
     (let status = Normal
      in if record_count = 0 \<and> required_hours > 0 then NoPunch
         else if record_count = 1 \<and> work_hours < required_hours then SinglePunchMissing
         else if work_hours < required_hours then Insufficient
         else if work_hours \<ge> required_hours then Normal
         else status)"

text \<open>The status rules in the words of the specification, section 4.6.\<close>

definition spec_status :: "nat \<Rightarrow> rat \<Rightarrow> rat \<Rightarrow> status" where
  "spec_status eventCount workedHours requiredHours =
     (if eventCount = 0 \<and> requiredHours > 0 then NoPunch
      else if eventCount = 1 \<and> workedHours < requiredHours then SinglePunchMissing
      else if workedHours < requiredHours then Insufficient
      else Normal)"

text \<open>
  A badge event: the card holder and the event time after
  \<open>pd.to_datetime(..., errors='coerce')\<close>, \<open>None\<close> being \<open>NaT\<close>.
\<close>

record badge_event =
  holder :: pystr
  event_time :: "datetime option"

text \<open>
  A row of the statistics sheet. The times and hours are kept as values; the program
  prints the times with \<open>strftime\<close> and rounds the hours to two decimals for display.
\<close>

record stat_row =
  r_date :: pystr
  r_name :: pystr
  r_dept :: pystr
  r_first_in :: "datetime option"
  r_last_out :: "datetime option"
  r_record_count :: nat
  r_work_hours :: rat
  r_raw_absence_hours :: rat
  r_actual_absence_hours :: rat
  r_actual_absence_minutes :: int
  r_required_hours :: rat
  r_description :: pystr
  r_status :: status
  r_temp_card :: bool

text \<open>
  \<open>summary_data\<close>: one dictionary from names to counts for each exception status.
  A dictionary is an association list in insertion order.
\<close>

type_synonym summary_data = "status \<Rightarrow> (pystr \<times> nat) list"

definition exception_statuses :: "status list" where
  "exception_statuses = [NoPunch, SinglePunchMissing, Insufficient]"

text \<open>Lines 448-452: drop the events without a time, keep those in the date range.\<close>

definition events_in_range :: "badge_event list \<Rightarrow> date \<Rightarrow> date \<Rightarrow> (pystr \<times> datetime) list" where
  "events_in_range kaoqin_df start_date end_date =
     filter (\<lambda>(h, t). fst t \<ge> start_date \<and> fst t \<le> end_date)
       (List.map_filter (\<lambda>e. map_option (\<lambda>t. (holder e, t)) (event_time e)) kaoqin_df)"

text \<open>Line 455: the dictionary from names to departments; a later row of a name wins.\<close>

definition employee_info_of :: "(pystr \<times> pystr) list \<Rightarrow> (pystr \<times> pystr) list" where
  "employee_info_of employee_df = foldl (\<lambda>d (name, dept). AList.update name dept d) [] employee_df"

text \<open>
  The body of the two loops, lines 482-554, for one day and one name. \<open>None\<close> is an
  exception that ends the run.
\<close>

definition analyze_cell ::
  "(pystr \<times> datetime) list \<Rightarrow> absence_row list \<Rightarrow> absence_row list \<Rightarrow> absence_row list
   \<Rightarrow> (pystr \<times> pystr) list \<Rightarrow> (pystr \<times> date) list \<Rightarrow> date \<Rightarrow> pystr \<Rightarrow> stat_row option" where
  "analyze_cell kaoqin xiujia_df waichu_df chuchai_df employee_info linshika_df day name =
     (let day_str = isoformat day;
          day_df = filter (\<lambda>(h, t). fst t = day \<and> h = name) kaoqin;
          times = sort (map snd day_df);
          first_in = (if day_df = [] then None else Some (hd times));
          last_out = (if day_df = [] then None else Some (last times));
          work_hours = (if day_df = [] then 0
                        else total_seconds (timedelta (last times) (hd times)) / 3600);
          record_count = length day_df
      in case get_absence_hours name day_str xiujia_df waichu_df chuchai_df of
           None \<Rightarrow> None
         | Some (raw_h, actual_h, text) \<Rightarrow>
            (let raw_absence_hours = 0 + raw_h;
                 actual_absence_hours = 0 + actual_h;
                 required_hours = required_hours_of actual_absence_hours;
                 status = decide_status record_count work_hours required_hours;
                 actual_absence_minutes =
                   max 0 (py_round ((9 - actual_absence_hours - work_hours) * 60));
                 has_temp_card =
                   (linshika_df \<noteq> [] \<and> (\<exists>row\<in>set linshika_df. fst row = name \<and> snd row = day))
             in Some \<lparr>r_date = day_str, r_name = name,
                      r_dept = (case map_of employee_info name of None \<Rightarrow> [] | Some d \<Rightarrow> d),
                      r_first_in = first_in, r_last_out = last_out,
                      r_record_count = record_count, r_work_hours = work_hours,
                      r_raw_absence_hours = raw_absence_hours,
                      r_actual_absence_hours = actual_absence_hours,
                      r_actual_absence_minutes = actual_absence_minutes,
                      r_required_hours = required_hours, r_description = text,
                      r_status = status, r_temp_card = has_temp_card\<rparr>))"

text \<open>Lines 556-560: count the row in the dictionary of its status.\<close>

definition count_exception :: "summary_data \<Rightarrow> status \<Rightarrow> pystr \<Rightarrow> summary_data" where
  "count_exception summary_data status name =
     (if status \<in> set exception_statuses then
        (let d = summary_data status;
             d' = (if map_of d name = None then AList.update name 0 d else d);
             c = (case map_of d' name of None \<Rightarrow> 0 | Some n \<Rightarrow> n)
         in summary_data(status := AList.update name (c + 1) d'))
      else summary_data)"

text \<open>
  The loops \<open>for day in work_dates: for name in qualified_employees\<close>, on the
  statistics list and the summary they fill.
\<close>

fun for_names ::
  "(date \<Rightarrow> pystr \<Rightarrow> stat_row option) \<Rightarrow> date \<Rightarrow> pystr list
   \<Rightarrow> stat_row list \<times> summary_data \<Rightarrow> (stat_row list \<times> summary_data) option" where
  "for_names body day [] acc = Some acc"
| "for_names body day (name # names) acc =
     (case body day name of
        None \<Rightarrow> None
      | Some row \<Rightarrow>
          for_names body day names
            (fst acc @ [row], count_exception (snd acc) (r_status row) name))"

fun for_days ::
  "(date \<Rightarrow> pystr \<Rightarrow> stat_row option) \<Rightarrow> date list \<Rightarrow> pystr list
   \<Rightarrow> stat_row list \<times> summary_data \<Rightarrow> (stat_row list \<times> summary_data) option" where
  "for_days body [] names acc = Some acc"
| "for_days body (day # days) names acc =
     (case for_names body day names acc of
        None \<Rightarrow> None
      | Some acc' \<Rightarrow> for_days body days names acc')"

text \<open>
  \<open>analyze_attendance\<close>, lines 445-562. The supplemental-card table comes with its
  dates already converted.
\<close>

definition work_dates_of :: "(pystr \<times> datetime) list \<Rightarrow> pystr set \<Rightarrow> pystr set \<Rightarrow> date list" where
  "work_dates_of kaoqin work_days holiday_days =
     (let all_dates = sort (remdups (map (\<lambda>(h, t). fst t) kaoqin))
      in filter (\<lambda>date. is_workday_from_calendar date work_days holiday_days) all_dates)"

definition analyze_attendance ::
  "badge_event list \<Rightarrow> absence_row list \<Rightarrow> absence_row list \<Rightarrow> absence_row list
   \<Rightarrow> (pystr \<times> pystr) list \<Rightarrow> (pystr \<times> date) list \<Rightarrow> date \<Rightarrow> date \<Rightarrow> pystr set \<Rightarrow> pystr set
   \<Rightarrow> (stat_row list \<times> summary_data) option" where
  "analyze_attendance kaoqin_df xiujia_df waichu_df chuchai_df employee_df linshika_df
     start_date end_date work_days holiday_days =
     (let kaoqin = events_in_range kaoqin_df start_date end_date;
          employee_info = employee_info_of employee_df;
          qualified_employees = map fst employee_info;
          work_dates = work_dates_of kaoqin work_days holiday_days
      in for_days
           (analyze_cell kaoqin xiujia_df waichu_df chuchai_df employee_info linshika_df)
           work_dates qualified_employees ([], \<lambda>status. []))"

section \<open>The exception summary\<close>

record summary_row =
  s_employee :: pystr
  s_no_punch :: nat
  s_single_punch :: nat
  s_insufficient :: nat
  s_total :: nat

definition get_count :: "(pystr \<times> nat) list \<Rightarrow> pystr \<Rightarrow> nat" where
  "get_count d employee = (case map_of d employee of None \<Rightarrow> 0 | Some n \<Rightarrow> n)"

text \<open>
  The rows \<open>save_reports\<close> writes to the summary sheet, lines 643-666: no sheet
  (no rows) when every dictionary is empty; names sorted, then a stable sort on the
  total, descending.
\<close>

definition summary_rows :: "summary_data \<Rightarrow> summary_row list" where
  "summary_rows summary_data =
     (if \<not> (\<exists>status\<in>set exception_statuses. summary_data status \<noteq> []) then []
      else
        (let all_employees =
               sort (remdups (concat (map (\<lambda>status. map fst (summary_data status))
                                       exception_statuses)));
             rows = map (\<lambda>employee.
               (let n1 = get_count (summary_data NoPunch) employee;
                    n2 = get_count (summary_data SinglePunchMissing) employee;
                    n3 = get_count (summary_data Insufficient) employee
                in \<lparr>s_employee = employee, s_no_punch = n1, s_single_punch = n2,
                     s_insufficient = n3, s_total = n1 + n2 + n3\<rparr>)) all_employees
         in sort_key (\<lambda>row. - int (s_total row)) rows))"

section \<open>Properties of the merge\<close>





















section \<open>Classification\<close>

lemma decide_status_spec: "decide_status n w r = spec_status n w r"
  by (simp add: decide_status_def spec_status_def)

lemma analyze_cell_fields:
  assumes "analyze_cell kq x w c ei l day name = Some row"
  shows "r_required_hours row = required_hours_of (r_actual_absence_hours row)"
    and "r_status row = decide_status (r_record_count row) (r_work_hours row) (r_required_hours row)"
    and "r_record_count row = length (filter (\<lambda>(h, t). fst t = day \<and> h = name) kq)"
    and "r_name row = name" and "r_date row = isoformat day"
    and "r_record_count row = 0 \<Longrightarrow> r_work_hours row = 0"
  using assms
  by (auto simp: analyze_cell_def Let_def split: option.splits prod.splits)

text \<open>
  Claim C2. The record of an employee-day has required hours
  \<open>max(0, 8.75 - actual absence hours)\<close>, and its status follows the four rules in
  their order, applied to the number of badge events of that employee on that day, the
  worked hours and the required hours; with no badge event (the worked
  hours are 0 then) and no required hours the status is normal.
\<close>

theorem status_decided_by_ordered_rules:
  assumes "analyze_cell kq x w c ei l day name = Some row"
  shows "r_required_hours row = max 0 (35 / 4 - r_actual_absence_hours row)
       \<and> r_record_count row = length (filter (\<lambda>(h, t). fst t = day \<and> h = name) kq)
       \<and> r_status row =
           (if r_record_count row = 0 \<and> r_required_hours row > 0 then NoPunch
            else if r_record_count row = 1 \<and> r_work_hours row < r_required_hours row
              then SinglePunchMissing
            else if r_work_hours row < r_required_hours row then Insufficient
            else Normal)
       \<and> r_status row = spec_status (r_record_count row) (r_work_hours row) (r_required_hours row)
       \<and> (r_record_count row = 0 \<longrightarrow> r_work_hours row = 0)
       \<and> (r_record_count row = 0 \<and> r_required_hours row = 0 \<longrightarrow> r_status row = Normal)"
proof -
  note f = analyze_cell_fields[OF assms]
  have s: "r_status row = spec_status (r_record_count row) (r_work_hours row) (r_required_hours row)"
    using f(2) by (simp add: decide_status_spec)
  show ?thesis
    using f(1) f(3) f(6) s by (simp add: required_hours_of_def spec_status_def)
qed

section \<open>The calendar policy\<close>

lemma weekday_sat: "weekday (2025, 2, 8) = 5"
  by (simp add: weekday_def toordinal_def days_before_year_def days_before_month_def
      DAYS_BEFORE_MONTH_def is_leap_def)

lemma isoformat_sat: "strftime_Ymd (2025, 2, 8) = ustr ''2025-02-08''"
  by (simp add: strftime_Ymd_def isoformat_def pad2_def pad4_def ustr_def ord_def)

text \<open>
  Claim C8. A date whose \<open>%Y-%m-%d\<close> string is in the holiday set is not a workday,
  also when it is in the compensated-workday set; one in the compensated-workday set
  only is a workday; any other date is a workday exactly when its weekday is Monday (0)
  to Friday (4). Saturday 8 February 2025 is a workday when listed as compensated
  workday and is none without an override.
\<close>

theorem is_workday_holiday_wins:
  "(strftime_Ymd d \<in> holiday_days \<longrightarrow> \<not> is_workday_from_calendar d work_days holiday_days)
   \<and> (strftime_Ymd d \<notin> holiday_days \<and> strftime_Ymd d \<in> work_days
        \<longrightarrow> is_workday_from_calendar d work_days holiday_days)
   \<and> (strftime_Ymd d \<notin> holiday_days \<and> strftime_Ymd d \<notin> work_days
        \<longrightarrow> (is_workday_from_calendar d work_days holiday_days \<longleftrightarrow> weekday d < 5))
   \<and> weekday (2025, 2, 8) = 5
   \<and> is_workday_from_calendar (2025, 2, 8) {ustr ''2025-02-08''} {}
   \<and> \<not> is_workday_from_calendar (2025, 2, 8) {} {}"
  using weekday_sat isoformat_sat by (simp add: is_workday_from_calendar_def)

theorem is_workday_holiday_wins_witness:
  "strftime_Ymd (2025, 2, 8) \<in> {ustr ''2025-02-08''}
   \<and> \<not> is_workday_from_calendar (2025, 2, 8) {ustr ''2025-02-08''} {ustr ''2025-02-08''}
   \<and> strftime_Ymd (2025, 2, 8) \<notin> {}
   \<and> is_workday_from_calendar (2025, 2, 8) {ustr ''2025-02-08''} {}
   \<and> strftime_Ymd (2025, 2, 10) \<notin> {ustr ''2025-02-08''}
   \<and> (is_workday_from_calendar (2025, 2, 10) {ustr ''2025-02-08''} {} \<longleftrightarrow> weekday (2025, 2, 10) < 5)
   \<and> weekday (2025, 2, 10) = 0"
proof -
  have s: "strftime_Ymd (2025, 2, 8) = ustr ''2025-02-08''"
    by (simp add: strftime_Ymd_def isoformat_def pad2_def pad4_def ustr_def ord_def)
  have t: "strftime_Ymd (2025, 2, 10) \<notin> {ustr ''2025-02-08''}"
    by (simp add: strftime_Ymd_def isoformat_def pad2_def pad4_def ustr_def ord_def)
  have w: "weekday (2025, 2, 10) = 0"
    by (simp add: weekday_def toordinal_def days_before_year_def days_before_month_def
      DAYS_BEFORE_MONTH_def is_leap_def)
  show ?thesis
    using is_workday_holiday_wins[of "(2025, 2, 8)" "{ustr ''2025-02-08''}" "{ustr ''2025-02-08''}"]
      is_workday_holiday_wins[of "(2025, 2, 8)" "{}" "{ustr ''2025-02-08''}"]
      is_workday_holiday_wins[of "(2025, 2, 10)" "{}" "{ustr ''2025-02-08''}"]
      s t w by simp
qed

end
